theory Spec2Isabelle
  imports Complex_Main
begin

section \<open>The conversion table of \<open>docs/plugins/conversion_table.py\<close>\<close>

subsection \<open>Python objects and values that occur in the table\<close>

text \<open>
  The first two positional arguments of a \<open>Row\<close> are Python objects used as identifiers:
  classes (\<open>str\<close>, \<open>Decimal\<close>, \<open>IPv4Address\<close>), typing constructs (\<open>Any\<close>, \<open>Mapping\<close>),
  builtin functions (\<open>isinstance\<close>, \<open>callable\<close>), the object \<open>None\<close>, and in places a plain
  \<open>str\<close> literal such as \<open>'Array'\<close>. A named object is kept under the name the source
  writes (distinct names of the module denote distinct objects), a literal keeps its text.
\<close>

datatype pyobj =
    PyNone
  | PyName string
  | PyStr string

text \<open>
  A Python \<open>float\<close> is an IEEE double: a finite double is kept as the rational number it
  denotes exactly (the literal \<open>2.1\<close> is the double \<open>4728779608739021 / 2^51\<close>), next to the
  infinities and NaN. \<open>Decimal(x)\<close> of an int or float \<open>x\<close> is the exact value of \<open>x\<close>.
\<close>

datatype pyfloat =
    Finite rat
  | PosInf
  | NegInf
  | NaN

text \<open>
  Example values. \<open>bytes\<close> and \<open>bytearray\<close> are sequences of 8-bit characters; every \<open>str\<close>
  literal of the table is ASCII. \<open>VDatetime\<close> carries year, month, day, hour, minute, second
  and microsecond, the omitted arguments of \<open>datetime(...)\<close> being their default 0.
\<close>

datatype pyval =
    VBool bool
  | VInt int
  | VFloat pyfloat
  | VDecimal rat
  | VStr string
  | VBytes string
  | VBytearray string
  | VDate int int int
  | VDatetime int int int int int int int
  | VTuple "pyval list"

subsection \<open>The dataclass \<open>Row\<close>\<close>

text \<open>
  The fields in declaration order. \<open>mode\<close> and \<open>input_format\<close> are annotated with
  \<open>Literal[...]\<close> types, which Python does not check when a \<open>Row\<close> is constructed: at run
  time both are arbitrary \<open>str\<close> values. The last four fields default to \<open>None\<close>.
\<close>

datatype Row = Row
  (field_type: pyobj)
  (input_type: pyobj)
  (mode: string)
  (input_format: string)
  (condition: "string option")
  (valid_examples: "pyval list option")
  (invalid_examples: "pyval list option")
  (core_schemas: "string list option")

text \<open>The values the annotations of \<open>mode\<close> and \<open>input_format\<close> admit.\<close>

definition mode_literals :: "string list" where
  "mode_literals = [''Lax'', ''Strict'']"

definition input_format_literals :: "string list" where
  "input_format_literals = [''Python'', ''JSON'', ''Python & JSON'']"

subsection \<open>The table\<close>

text \<open>
  The 190 rows in source order. A schema class \<open>core_schema.X\<close> is named \<open>X\<close>. The float
  literal \<open>2.2250738585072011e308\<close> exceeds the largest finite double and denotes infinity.
\<close>

definition table :: "Row list" where \<open>table = [
    Row (PyName ''str'') (PyName ''str'') ''Strict'' ''Python & JSON''
      None
      None
      None
      (Some [''StringSchema'']),
    Row (PyName ''str'') (PyName ''bytes'') ''Lax'' ''Python''
      (Some ''Assumes UTF-8, error on unicode decoding error.'')
      (Some [VBytes ''this is bytes''])
      (Some [VBytes [CHR 0x81]])
      (Some [''StringSchema'']),
    Row (PyName ''str'') (PyName ''bytearray'') ''Lax'' ''Python''
      (Some ''Assumes UTF-8, error on unicode decoding error.'')
      (Some [VBytearray (concat (replicate 3 ''this is bytearray''))])
      (Some [VBytearray (concat (replicate 5 [CHR 0x81]))])
      (Some [''StringSchema'']),
    Row (PyName ''bytes'') (PyName ''bytes'') ''Strict'' ''Python''
      None
      None
      None
      (Some [''BytesSchema'']),
    Row (PyName ''bytes'') (PyName ''str'') ''Strict'' ''JSON''
      None
      (Some [VStr ''foo''])
      None
      (Some [''BytesSchema'']),
    Row (PyName ''bytes'') (PyName ''str'') ''Lax'' ''Python''
      None
      (Some [VStr ''foo''])
      None
      (Some [''BytesSchema'']),
    Row (PyName ''bytes'') (PyName ''bytearray'') ''Lax'' ''Python''
      None
      (Some [VBytearray (concat (replicate 3 ''this is bytearray''))])
      None
      (Some [''BytesSchema'']),
    Row (PyName ''int'') (PyName ''int'') ''Strict'' ''Python & JSON''
      (Some ''Max abs value `2^64` - `i64` is used internally, `bool` explicitly forbidden.'')
      None
      (Some [VInt (2 ^ 64), VBool True, VBool False])
      (Some [''IntSchema'']),
    Row (PyName ''int'') (PyName ''int'') ''Lax'' ''Python & JSON''
      (Some ''`i64`. Limits `numbers > (2 ^ 63) - 1` to `(2 ^ 63) - 1`.'')
      None
      None
      (Some [''IntSchema'']),
    Row (PyName ''int'') (PyName ''float'') ''Lax'' ''Python & JSON''
      (Some ''`i64`, Must be exact int, e.g. `val % 1 == 0`, raises error for `nan`, `inf`.'')
      (Some [VFloat (Finite 2)])
      (Some [VFloat (Finite (4728779608739021 / 2251799813685248)), VFloat PosInf, VFloat NaN, VFloat PosInf])
      (Some [''IntSchema'']),
    Row (PyName ''int'') (PyName ''Decimal'') ''Lax'' ''Python''
      (Some ''`i64`, Must be exact int, e.g. `val % 1 == 0`.'')
      (Some [VDecimal 2])
      (Some [VDecimal (4728779608739021 / 2251799813685248)])
      (Some [''IntSchema'']),
    Row (PyName ''int'') (PyName ''bool'') ''Lax'' ''Python & JSON''
      None
      (Some [VBool True, VBool False])
      None
      (Some [''IntSchema'']),
    Row (PyName ''int'') (PyName ''str'') ''Lax'' ''Python & JSON''
      (Some ''`i64`, Must be numeric only, e.g. `[0-9]+`.'')
      (Some [VStr ''123''])
      (Some [VStr ''test'', VStr ''123x''])
      (Some [''IntSchema'']),
    Row (PyName ''int'') (PyName ''bytes'') ''Lax'' ''Python''
      (Some ''`i64`, Must be numeric only, e.g. `[0-9]+`.'')
      (Some [VBytes ''123''])
      (Some [VBytes ''test'', VBytes ''123x''])
      (Some [''IntSchema'']),
    Row (PyName ''float'') (PyName ''float'') ''Strict'' ''Python & JSON''
      (Some ''`bool` explicitly forbidden.'')
      None
      (Some [VBool True, VBool False])
      (Some [''FloatSchema'']),
    Row (PyName ''float'') (PyName ''int'') ''Strict'' ''Python & JSON''
      None
      (Some [VInt 123])
      None
      (Some [''FloatSchema'']),
    Row (PyName ''float'') (PyName ''str'') ''Lax'' ''Python & JSON''
      (Some (''Must match `[0-9]+('' @ [CHR 0x5C] @ ''.[0-9]+)?`.''))
      (Some [VStr ''3.141''])
      (Some [VStr ''test'', VStr ''3.141x''])
      (Some [''FloatSchema'']),
    Row (PyName ''float'') (PyName ''bytes'') ''Lax'' ''Python''
      (Some (''Must match `[0-9]+('' @ [CHR 0x5C] @ ''.[0-9]+)?`.''))
      (Some [VBytes ''3.141''])
      (Some [VBytes ''test'', VBytes ''3.141x''])
      (Some [''FloatSchema'']),
    Row (PyName ''float'') (PyName ''Decimal'') ''Lax'' ''Python''
      None
      (Some [VDecimal (7 / 2)])
      None
      (Some [''FloatSchema'']),
    Row (PyName ''float'') (PyName ''bool'') ''Lax'' ''Python & JSON''
      None
      (Some [VBool True, VBool False])
      None
      (Some [''FloatSchema'']),
    Row (PyName ''bool'') (PyName ''bool'') ''Strict'' ''Python & JSON''
      None
      (Some [VBool True, VBool False])
      None
      (Some [''BoolSchema'']),
    Row (PyName ''bool'') (PyName ''int'') ''Lax'' ''Python & JSON''
      (Some ''Allowed values: `0, 1`.'')
      (Some [VInt 0, VInt 1])
      (Some [VInt 2, VInt 100])
      (Some [''BoolSchema'']),
    Row (PyName ''bool'') (PyName ''float'') ''Lax'' ''Python & JSON''
      (Some ''Allowed values: `0.0, 1.0`.'')
      (Some [VFloat (Finite 0), VFloat (Finite 1)])
      (Some [VFloat (Finite 2), VFloat (Finite 100)])
      (Some [''BoolSchema'']),
    Row (PyName ''bool'') (PyName ''Decimal'') ''Lax'' ''Python''
      (Some ''Allowed values: `Decimal(0), Decimal(1)`.'')
      (Some [VDecimal 0, VDecimal 1])
      (Some [VDecimal 2, VDecimal 100])
      (Some [''BoolSchema'']),
    Row (PyName ''bool'') (PyName ''str'') ''Lax'' ''Python & JSON''
      (Some ''Allowed values: `\'f\'`, `\'n\'`, `\'no\'`, `\'off\'`, `\'false\'`, `\'False\'`, `\'t\'`, `\'y\'`, `\'on\'`, `\'yes\'`, `\'true\'`, `\'True\'`.'')
      (Some [VStr ''f'', VStr ''n'', VStr ''no'', VStr ''off'', VStr ''false'', VStr ''False'', VStr ''t'', VStr ''y'', VStr ''on'', VStr ''yes'', VStr ''true'', VStr ''True''])
      (Some [VStr ''test''])
      (Some [''BoolSchema'']),
    Row (PyNone) (PyNone) ''Strict'' ''Python & JSON''
      None
      None
      None
      (Some [''NoneSchema'']),
    Row (PyName ''date'') (PyName ''date'') ''Strict'' ''Python''
      None
      None
      None
      (Some [''DateSchema'']),
    Row (PyName ''date'') (PyName ''datetime'') ''Lax'' ''Python''
      (Some ''Must be exact date, eg. no `H`, `M`, `S`, `f`.'')
      (Some [VDatetime 2017 5 5 0 0 0 0])
      (Some [VDatetime 2017 5 5 10 0 0 0])
      (Some [''DateSchema'']),
    Row (PyName ''date'') (PyName ''str'') ''Lax'' ''Python & JSON''
      (Some ''Format: `YYYY-MM-DD`.'')
      (Some [VStr ''2017-05-05''])
      (Some [VStr ''2017-5-5'', VStr ''2017/05/05''])
      (Some [''DateSchema'']),
    Row (PyName ''date'') (PyName ''bytes'') ''Lax'' ''Python''
      (Some ''Format: `YYYY-MM-DD` (UTF-8).'')
      (Some [VBytes ''2017-05-05''])
      (Some [VBytes ''2017-5-5'', VBytes ''2017/05/05''])
      (Some [''DateSchema'']),
    Row (PyName ''date'') (PyName ''int'') ''Lax'' ''Python & JSON''
      (Some ''Interpreted as seconds or ms from epoch. See [speedate](https://docs.rs/speedate/latest/speedate/). Must be exact date.'')
      (Some [VInt 1493942400000, VInt 1493942400])
      (Some [VInt 1493942401000])
      (Some [''DateSchema'']),
    Row (PyName ''date'') (PyName ''float'') ''Lax'' ''Python & JSON''
      (Some ''Interpreted as seconds or ms from epoch. See [speedate](https://docs.rs/speedate/latest/speedate/). Must be exact date.'')
      (Some [VFloat (Finite 1493942400000), VFloat (Finite 1493942400)])
      (Some [VFloat (Finite 1493942401000)])
      (Some [''DateSchema'']),
    Row (PyName ''date'') (PyName ''Decimal'') ''Lax'' ''Python''
      (Some ''Interpreted as seconds or ms from epoch. See [speedate](https://docs.rs/speedate/latest/speedate/). Must be exact date.'')
      (Some [VDecimal 1493942400000, VDecimal 1493942400])
      (Some [VDecimal 1493942401000])
      (Some [''DateSchema'']),
    Row (PyName ''datetime'') (PyName ''datetime'') ''Strict'' ''Python''
      None
      None
      None
      (Some [''DatetimeSchema'']),
    Row (PyName ''datetime'') (PyName ''date'') ''Lax'' ''Python''
      None
      (Some [VDate 2017 5 5])
      None
      (Some [''DatetimeSchema'']),
    Row (PyName ''datetime'') (PyName ''str'') ''Lax'' ''Python & JSON''
      (Some ''Format: `YYYY-MM-DDTHH:MM:SS.f`. See [speedate](https://docs.rs/speedate/latest/speedate/).'')
      (Some [VStr ''2017-05-05 10:10:10'', VStr ''2017-05-05T10:10:10.0002'', VStr ''2017-05-05 10:10:10+00:00''])
      (Some [VStr ''2017-5-5T10:10:10''])
      (Some [''DatetimeSchema'']),
    Row (PyName ''datetime'') (PyName ''bytes'') ''Lax'' ''Python''
      (Some ''Format: `YYYY-MM-DDTHH:MM:SS.f`. See [speedate](https://docs.rs/speedate/latest/speedate/), (UTF-8).'')
      (Some [VBytes ''2017-05-05 10:10:10'', VBytes ''2017-05-05T10:10:10.0002'', VBytes ''2017-05-05 10:10:10+00:00''])
      (Some [VBytes ''2017-5-5T10:10:10''])
      (Some [''DatetimeSchema'']),
    Row (PyName ''datetime'') (PyName ''int'') ''Lax'' ''Python & JSON''
      (Some ''Interpreted as seconds or ms from epoch, see [speedate](https://docs.rs/speedate/latest/speedate/).'')
      (Some [VInt 1493979010000, VInt 1493979010])
      None
      (Some [''DatetimeSchema'']),
    Row (PyName ''datetime'') (PyName ''float'') ''Lax'' ''Python & JSON''
      (Some ''Interpreted as seconds or ms from epoch, see [speedate](https://docs.rs/speedate/latest/speedate/).'')
      (Some [VFloat (Finite 1493979010000), VFloat (Finite 1493979010)])
      None
      (Some [''DatetimeSchema'']),
    Row (PyName ''datetime'') (PyName ''Decimal'') ''Lax'' ''Python''
      (Some ''Interpreted as seconds or ms from epoch, see [speedate](https://docs.rs/speedate/latest/speedate/).'')
      (Some [VDecimal 1493979010000, VDecimal 1493979010])
      None
      (Some [''DatetimeSchema'']),
    Row (PyName ''time'') (PyName ''time'') ''Strict'' ''Python''
      None
      None
      None
      (Some [''TimeSchema'']),
    Row (PyName ''time'') (PyName ''str'') ''Lax'' ''Python & JSON''
      (Some ''Format: `HH:MM:SS.FFFFFF`. See [speedate](https://docs.rs/speedate/latest/speedate/).'')
      (Some [VStr ''10:10:10.0002''])
      (Some [VStr ''1:1:1''])
      (Some [''TimeSchema'']),
    Row (PyName ''time'') (PyName ''bytes'') ''Lax'' ''Python''
      (Some ''Format: `HH:MM:SS.FFFFFF`. See [speedate](https://docs.rs/speedate/latest/speedate/).'')
      (Some [VBytes ''10:10:10.0002''])
      (Some [VBytes ''1:1:1''])
      (Some [''TimeSchema'']),
    Row (PyName ''time'') (PyName ''int'') ''Lax'' ''Python & JSON''
      (Some ''Interpreted as seconds, range `0 - 86399`.'')
      (Some [VInt 3720])
      (Some [VInt (- 1), VInt 86400])
      (Some [''TimeSchema'']),
    Row (PyName ''time'') (PyName ''float'') ''Lax'' ''Python & JSON''
      (Some ''Interpreted as seconds, range `0 - 86399.9*`.'')
      (Some [VFloat (Finite (8180366950458091 / 2199023255552))])
      (Some [VFloat (Finite (- 1)), VFloat (Finite 86400)])
      (Some [''TimeSchema'']),
    Row (PyName ''time'') (PyName ''Decimal'') ''Lax'' ''Python''
      (Some ''Interpreted as seconds, range `0 - 86399.9*`.'')
      (Some [VDecimal (8180366950458091 / 2199023255552)])
      (Some [VDecimal (- 1), VDecimal 86400])
      (Some [''TimeSchema'']),
    Row (PyName ''timedelta'') (PyName ''timedelta'') ''Strict'' ''Python''
      None
      None
      None
      (Some [''TimedeltaSchema'']),
    Row (PyName ''timedelta'') (PyName ''str'') ''Lax'' ''Python & JSON''
      (Some ''Format: `ISO8601`. See [speedate](https://docs.rs/speedate/latest/speedate/).'')
      (Some [VStr ''1 days 10:10'', VStr ''1 d 10:10''])
      (Some [VStr ''1 10:10''])
      (Some [''TimedeltaSchema'']),
    Row (PyName ''timedelta'') (PyName ''bytes'') ''Lax'' ''Python''
      (Some ''Format: `ISO8601`. See [speedate](https://docs.rs/speedate/latest/speedate/), (UTF-8).'')
      (Some [VBytes ''1 days 10:10'', VBytes ''1 d 10:10''])
      (Some [VBytes ''1 10:10''])
      (Some [''TimedeltaSchema'']),
    Row (PyName ''timedelta'') (PyName ''int'') ''Lax'' ''Python & JSON''
      (Some ''Interpreted as seconds.'')
      (Some [VInt 123000])
      None
      (Some [''TimedeltaSchema'']),
    Row (PyName ''timedelta'') (PyName ''float'') ''Lax'' ''Python & JSON''
      (Some ''Interpreted as seconds.'')
      (Some [VFloat (Finite (8452495652271895 / 68719476736))])
      None
      (Some [''TimedeltaSchema'']),
    Row (PyName ''timedelta'') (PyName ''Decimal'') ''Lax'' ''Python''
      (Some ''Interpreted as seconds.'')
      (Some [VDecimal (8452495652271895 / 68719476736)])
      None
      (Some [''TimedeltaSchema'']),
    Row (PyName ''dict'') (PyName ''dict'') ''Strict'' ''Python''
      None
      None
      None
      (Some [''DictSchema'']),
    Row (PyName ''dict'') (PyStr ''Object'') ''Strict'' ''JSON''
      None
      (Some [VStr (''{'' @ [CHR 0x22] @ ''v'' @ [CHR 0x22] @ '': {'' @ [CHR 0x22] @ ''1'' @ [CHR 0x22] @ '': 1, '' @ [CHR 0x22] @ ''2'' @ [CHR 0x22] @ '': 2}}'')])
      None
      (Some [''DictSchema'']),
    Row (PyName ''dict'') (PyName ''Mapping'') ''Lax'' ''Python''
      (Some ''Must implement the mapping interface and have an `items()` method.'')
      (Some [])
      None
      (Some [''DictSchema'']),
    Row (PyName ''TypedDict'') (PyName ''dict'') ''Strict'' ''Python''
      None
      None
      None
      (Some [''TypedDictSchema'']),
    Row (PyName ''TypedDict'') (PyStr ''Object'') ''Strict'' ''JSON''
      None
      None
      None
      (Some [''TypedDictSchema'']),
    Row (PyName ''TypedDict'') (PyName ''Any'') ''Strict'' ''Python''
      None
      None
      None
      (Some [''TypedDictSchema'']),
    Row (PyName ''TypedDict'') (PyName ''Mapping'') ''Lax'' ''Python''
      (Some ''Must implement the mapping interface and have an `items()` method.'')
      (Some [])
      None
      (Some [''TypedDictSchema'']),
    Row (PyName ''list'') (PyName ''list'') ''Strict'' ''Python''
      None
      None
      None
      (Some [''ListSchema'']),
    Row (PyName ''list'') (PyStr ''Array'') ''Strict'' ''JSON''
      None
      None
      None
      (Some [''ListSchema'']),
    Row (PyName ''list'') (PyName ''tuple'') ''Lax'' ''Python''
      None
      None
      None
      (Some [''ListSchema'']),
    Row (PyName ''list'') (PyName ''set'') ''Lax'' ''Python''
      None
      None
      None
      (Some [''ListSchema'']),
    Row (PyName ''list'') (PyName ''frozenset'') ''Lax'' ''Python''
      None
      None
      None
      (Some [''ListSchema'']),
    Row (PyName ''list'') (PyName ''deque'') ''Lax'' ''Python''
      None
      None
      None
      (Some [''ListSchema'']),
    Row (PyName ''list'') (PyStr ''dict_keys'') ''Lax'' ''Python''
      None
      None
      None
      (Some [''ListSchema'']),
    Row (PyName ''list'') (PyStr ''dict_values'') ''Lax'' ''Python''
      None
      None
      None
      (Some [''ListSchema'']),
    Row (PyName ''tuple'') (PyName ''tuple'') ''Strict'' ''Python''
      None
      None
      None
      (Some [''TuplePositionalSchema'', ''TupleVariableSchema'']),
    Row (PyName ''tuple'') (PyStr ''Array'') ''Strict'' ''JSON''
      None
      None
      None
      (Some [''TuplePositionalSchema'', ''TupleVariableSchema'']),
    Row (PyName ''tuple'') (PyName ''list'') ''Lax'' ''Python''
      None
      None
      None
      (Some [''TuplePositionalSchema'', ''TupleVariableSchema'']),
    Row (PyName ''tuple'') (PyName ''set'') ''Lax'' ''Python''
      None
      None
      None
      (Some [''TuplePositionalSchema'', ''TupleVariableSchema'']),
    Row (PyName ''tuple'') (PyName ''frozenset'') ''Lax'' ''Python''
      None
      None
      None
      (Some [''TuplePositionalSchema'', ''TupleVariableSchema'']),
    Row (PyName ''tuple'') (PyName ''deque'') ''Lax'' ''Python''
      None
      None
      None
      (Some [''TuplePositionalSchema'', ''TupleVariableSchema'']),
    Row (PyName ''tuple'') (PyStr ''dict_keys'') ''Lax'' ''Python''
      None
      None
      None
      (Some [''TuplePositionalSchema'', ''TupleVariableSchema'']),
    Row (PyName ''tuple'') (PyStr ''dict_values'') ''Lax'' ''Python''
      None
      None
      None
      (Some [''TuplePositionalSchema'', ''TupleVariableSchema'']),
    Row (PyName ''set'') (PyName ''set'') ''Strict'' ''Python''
      None
      None
      None
      (Some [''SetSchema'']),
    Row (PyName ''set'') (PyStr ''Array'') ''Strict'' ''JSON''
      None
      None
      None
      (Some [''SetSchema'']),
    Row (PyName ''set'') (PyName ''list'') ''Lax'' ''Python''
      None
      None
      None
      (Some [''SetSchema'']),
    Row (PyName ''set'') (PyName ''tuple'') ''Lax'' ''Python''
      None
      None
      None
      (Some [''SetSchema'']),
    Row (PyName ''set'') (PyName ''frozenset'') ''Lax'' ''Python''
      None
      None
      None
      (Some [''SetSchema'']),
    Row (PyName ''set'') (PyName ''deque'') ''Lax'' ''Python''
      None
      None
      None
      (Some [''SetSchema'']),
    Row (PyName ''set'') (PyStr ''dict_keys'') ''Lax'' ''Python''
      None
      None
      None
      (Some [''SetSchema'']),
    Row (PyName ''set'') (PyStr ''dict_values'') ''Lax'' ''Python''
      None
      None
      None
      (Some [''SetSchema'']),
    Row (PyName ''frozenset'') (PyName ''frozenset'') ''Strict'' ''Python''
      None
      None
      None
      (Some [''FrozenSetSchema'']),
    Row (PyName ''frozenset'') (PyStr ''Array'') ''Strict'' ''JSON''
      None
      None
      None
      (Some [''FrozenSetSchema'']),
    Row (PyName ''frozenset'') (PyName ''list'') ''Lax'' ''Python''
      None
      None
      None
      (Some [''FrozenSetSchema'']),
    Row (PyName ''frozenset'') (PyName ''tuple'') ''Lax'' ''Python''
      None
      None
      None
      (Some [''FrozenSetSchema'']),
    Row (PyName ''frozenset'') (PyName ''set'') ''Lax'' ''Python''
      None
      None
      None
      (Some [''FrozenSetSchema'']),
    Row (PyName ''frozenset'') (PyName ''deque'') ''Lax'' ''Python''
      None
      None
      None
      (Some [''FrozenSetSchema'']),
    Row (PyName ''frozenset'') (PyStr ''dict_keys'') ''Lax'' ''Python''
      None
      None
      None
      (Some [''FrozenSetSchema'']),
    Row (PyName ''frozenset'') (PyStr ''dict_values'') ''Lax'' ''Python''
      None
      None
      None
      (Some [''FrozenSetSchema'']),
    Row (PyName ''isinstance'') (PyName ''Any'') ''Strict'' ''Python''
      (Some ''`isinstance()` check returns `True`.'')
      None
      None
      (Some [''IsInstanceSchema'']),
    Row (PyName ''isinstance'') (PyStr ''-'') ''Strict'' ''JSON''
      (Some ''Never valid.'')
      None
      None
      (Some [''IsInstanceSchema'']),
    Row (PyName ''callable'') (PyName ''Any'') ''Strict'' ''Python''
      (Some ''`callable()` check returns `True`.'')
      None
      None
      (Some [''CallableSchema'']),
    Row (PyName ''callable'') (PyStr '''') ''Strict'' ''JSON''
      (Some ''Never valid.'')
      None
      None
      (Some [''CallableSchema'']),
    Row (PyName ''deque'') (PyName ''deque'') ''Strict'' ''Python''
      None
      None
      None
      (Some [''WrapValidatorFunctionSchema'']),
    Row (PyName ''deque'') (PyStr ''Array'') ''Strict'' ''Json''
      None
      None
      None
      (Some [''WrapValidatorFunctionSchema'']),
    Row (PyName ''deque'') (PyName ''list'') ''Lax'' ''Python''
      None
      None
      None
      (Some [''ChainSchema'']),
    Row (PyName ''deque'') (PyName ''tuple'') ''Lax'' ''Python''
      None
      None
      None
      (Some [''ChainSchema'']),
    Row (PyName ''deque'') (PyName ''set'') ''Lax'' ''Python''
      None
      None
      None
      (Some [''ChainSchema'']),
    Row (PyName ''deque'') (PyName ''frozenset'') ''Lax'' ''Python''
      None
      None
      None
      (Some [''ChainSchema'']),
    Row (PyName ''Any'') (PyName ''Any'') ''Strict'' ''Python & JSON''
      None
      None
      None
      (Some [''AnySchema'']),
    Row (PyName ''typing.NamedTuple'') (PyName ''typing.NamedTuple'') ''Strict'' ''Python''
      None
      None
      None
      (Some [''CallSchema'']),
    Row (PyName ''typing.NamedTuple'') (PyStr ''Array'') ''Strict'' ''JSON''
      None
      None
      None
      (Some [''CallSchema'']),
    Row (PyName ''typing.NamedTuple'') (PyName ''collections.namedtuple'') ''Strict'' ''Python''
      None
      None
      None
      (Some [''CallSchema'']),
    Row (PyName ''typing.NamedTuple'') (PyName ''tuple'') ''Strict'' ''Python''
      None
      None
      None
      (Some [''CallSchema'']),
    Row (PyName ''typing.NamedTuple'') (PyName ''list'') ''Strict'' ''Python''
      None
      None
      None
      (Some [''CallSchema'']),
    Row (PyName ''typing.NamedTuple'') (PyName ''dict'') ''Strict'' ''Python''
      None
      None
      None
      (Some [''CallSchema'']),
    Row (PyName ''collections.namedtuple'') (PyName ''collections.namedtuple'') ''Strict'' ''Python''
      None
      None
      None
      (Some [''CallSchema'']),
    Row (PyName ''collections.namedtuple'') (PyStr ''Array'') ''Strict'' ''JSON''
      None
      None
      None
      (Some [''CallSchema'']),
    Row (PyName ''collections.namedtuple'') (PyName ''typing.NamedTuple'') ''Strict'' ''Python''
      None
      None
      None
      (Some [''CallSchema'']),
    Row (PyName ''collections.namedtuple'') (PyName ''tuple'') ''Strict'' ''Python''
      None
      None
      None
      (Some [''CallSchema'']),
    Row (PyName ''collections.namedtuple'') (PyName ''list'') ''Strict'' ''Python''
      None
      None
      None
      (Some [''CallSchema'']),
    Row (PyName ''collections.namedtuple'') (PyName ''dict'') ''Strict'' ''Python''
      None
      None
      None
      (Some [''CallSchema'']),
    Row (PyName ''Sequence'') (PyName ''list'') ''Strict'' ''Python''
      None
      None
      None
      (Some [''ChainSchema'']),
    Row (PyName ''Sequence'') (PyStr ''Array'') ''Strict'' ''JSON''
      None
      None
      None
      (Some [''ChainSchema'']),
    Row (PyName ''Sequence'') (PyName ''tuple'') ''Lax'' ''Python''
      None
      None
      None
      (Some [''ChainSchema'']),
    Row (PyName ''Sequence'') (PyName ''deque'') ''Lax'' ''Python''
      None
      None
      None
      (Some [''ChainSchema'']),
    Row (PyName ''Iterable'') (PyName ''list'') ''Strict'' ''Python''
      None
      None
      None
      (Some [''GeneratorSchema'']),
    Row (PyName ''Iterable'') (PyStr ''Array'') ''Strict'' ''JSON''
      None
      None
      None
      (Some [''GeneratorSchema'']),
    Row (PyName ''Iterable'') (PyName ''tuple'') ''Strict'' ''Python''
      None
      None
      None
      (Some [''GeneratorSchema'']),
    Row (PyName ''Iterable'') (PyName ''set'') ''Strict'' ''Python''
      None
      None
      None
      (Some [''GeneratorSchema'']),
    Row (PyName ''Iterable'') (PyName ''frozenset'') ''Strict'' ''Python''
      None
      None
      None
      (Some [''GeneratorSchema'']),
    Row (PyName ''Iterable'') (PyName ''deque'') ''Strict'' ''Python''
      None
      None
      None
      (Some [''GeneratorSchema'']),
    Row (PyName ''Type'') (PyName ''Type'') ''Strict'' ''Python''
      None
      None
      None
      (Some [''IsSubclassSchema'']),
    Row (PyName ''Pattern'') (PyName ''str'') ''Strict'' ''Python & JSON''
      (Some ''Input should be a valid pattern.'')
      None
      None
      (Some [''PlainValidatorFunctionSchema'']),
    Row (PyName ''Pattern'') (PyName ''bytes'') ''Strict'' ''Python''
      (Some ''Input should be a valid pattern.'')
      None
      None
      (Some [''PlainValidatorFunctionSchema'']),
    Row (PyName ''IPv4Address'') (PyName ''IPv4Address'') ''Strict'' ''Python''
      None
      None
      None
      (Some [''IsInstanceSchema'']),
    Row (PyName ''IPv4Address'') (PyName ''IPv4Interface'') ''Strict'' ''Python''
      None
      None
      None
      (Some [''IsInstanceSchema'']),
    Row (PyName ''IPv4Address'') (PyName ''str'') ''Strict'' ''JSON''
      None
      None
      None
      (Some [''AfterValidatorFunctionSchema'']),
    Row (PyName ''IPv4Address'') (PyName ''str'') ''Lax'' ''Python & JSON''
      None
      None
      None
      (Some [''PlainValidatorFunctionSchema'']),
    Row (PyName ''IPv4Address'') (PyName ''bytes'') ''Lax'' ''Python''
      None
      (Some [VBytes [CHR 0x00, CHR 0x00, CHR 0x00, CHR 0x00]])
      None
      (Some [''PlainValidatorFunctionSchema'']),
    Row (PyName ''IPv4Address'') (PyName ''int'') ''Lax'' ''Python''
      (Some ''integer representing the IP address, should be less than `2**32`'')
      (Some [VInt 168430090])
      None
      (Some [''PlainValidatorFunctionSchema'']),
    Row (PyName ''IPv4Interface'') (PyName ''IPv4Interface'') ''Strict'' ''Python''
      None
      None
      None
      (Some [''IsInstanceSchema'']),
    Row (PyName ''IPv4Interface'') (PyName ''str'') ''Strict'' ''JSON''
      None
      None
      None
      (Some [''AfterValidatorFunctionSchema'']),
    Row (PyName ''IPv4Interface'') (PyName ''IPv4Address'') ''Lax'' ''Python & JSON''
      None
      None
      None
      (Some [''PlainValidatorFunctionSchema'']),
    Row (PyName ''IPv4Interface'') (PyName ''str'') ''Lax'' ''Python & JSON''
      None
      None
      None
      (Some [''PlainValidatorFunctionSchema'']),
    Row (PyName ''IPv4Interface'') (PyName ''bytes'') ''Lax'' ''Python''
      None
      (Some [VBytes [CHR 0xFF, CHR 0xFF, CHR 0xFF, CHR 0xFF]])
      None
      (Some [''PlainValidatorFunctionSchema'']),
    Row (PyName ''IPv4Interface'') (PyName ''tuple'') ''Lax'' ''Python''
      None
      (Some [VTuple [VStr ''192.168.0.1'', VStr ''24'']])
      None
      (Some [''PlainValidatorFunctionSchema'']),
    Row (PyName ''IPv4Interface'') (PyName ''int'') ''Lax'' ''Python''
      (Some ''integer representing the IP address, should be less than `2**32`'')
      (Some [VInt 168430090])
      None
      (Some [''PlainValidatorFunctionSchema'']),
    Row (PyName ''IPv4Network'') (PyName ''IPv4Network'') ''Strict'' ''Python''
      None
      None
      None
      (Some [''IsInstanceSchema'']),
    Row (PyName ''IPv4Network'') (PyName ''str'') ''Strict'' ''JSON''
      None
      None
      None
      (Some [''AfterValidatorFunctionSchema'']),
    Row (PyName ''IPv4Network'') (PyName ''IPv4Address'') ''Lax'' ''Python & JSON''
      None
      None
      None
      (Some [''PlainValidatorFunctionSchema'']),
    Row (PyName ''IPv4Network'') (PyName ''IPv4Interface'') ''Lax'' ''Python & JSON''
      None
      None
      None
      (Some [''PlainValidatorFunctionSchema'']),
    Row (PyName ''IPv4Network'') (PyName ''str'') ''Lax'' ''Python & JSON''
      None
      None
      None
      (Some [''PlainValidatorFunctionSchema'']),
    Row (PyName ''IPv4Network'') (PyName ''bytes'') ''Lax'' ''Python''
      None
      (Some [VBytes [CHR 0xFF, CHR 0xFF, CHR 0xFF, CHR 0xFF]])
      None
      (Some [''PlainValidatorFunctionSchema'']),
    Row (PyName ''IPv4Network'') (PyName ''int'') ''Lax'' ''Python''
      (Some ''integer representing the IP network, should be less than `2**32`'')
      (Some [VInt 168430090])
      None
      (Some [''PlainValidatorFunctionSchema'']),
    Row (PyName ''IPv6Address'') (PyName ''IPv6Address'') ''Strict'' ''Python''
      None
      None
      None
      (Some [''IsInstanceSchema'']),
    Row (PyName ''IPv6Address'') (PyName ''IPv6Interface'') ''Strict'' ''Python''
      None
      None
      None
      (Some [''IsInstanceSchema'']),
    Row (PyName ''IPv6Address'') (PyName ''str'') ''Strict'' ''JSON''
      None
      None
      None
      (Some [''AfterValidatorFunctionSchema'']),
    Row (PyName ''IPv6Address'') (PyName ''str'') ''Lax'' ''Python & JSON''
      None
      None
      None
      (Some [''PlainValidatorFunctionSchema'']),
    Row (PyName ''IPv6Address'') (PyName ''bytes'') ''Lax'' ''Python''
      None
      (Some [VBytes [CHR 0x00, CHR 0x00, CHR 0x00, CHR 0x00, CHR 0x00, CHR 0x00, CHR 0x00, CHR 0x00, CHR 0x00, CHR 0x00, CHR 0x00, CHR 0x01, CHR 0x00, CHR 0x00, CHR 0x00, CHR 0x01]])
      None
      (Some [''PlainValidatorFunctionSchema'']),
    Row (PyName ''IPv6Address'') (PyName ''int'') ''Lax'' ''Python''
      (Some ''integer representing the IP address, should be less than `2**128`'')
      (Some [VInt 340282366920938463463374607431768211455])
      None
      (Some [''PlainValidatorFunctionSchema'']),
    Row (PyName ''IPv6Interface'') (PyName ''IPv6Interface'') ''Strict'' ''Python''
      None
      None
      None
      (Some [''IsInstanceSchema'']),
    Row (PyName ''IPv6Interface'') (PyName ''str'') ''Strict'' ''JSON''
      None
      None
      None
      (Some [''AfterValidatorFunctionSchema'']),
    Row (PyName ''IPv6Interface'') (PyName ''IPv6Address'') ''Lax'' ''Python & JSON''
      None
      None
      None
      (Some [''PlainValidatorFunctionSchema'']),
    Row (PyName ''IPv6Interface'') (PyName ''str'') ''Lax'' ''Python & JSON''
      None
      None
      None
      (Some [''PlainValidatorFunctionSchema'']),
    Row (PyName ''IPv6Interface'') (PyName ''bytes'') ''Lax'' ''Python''
      None
      (Some [VBytes [CHR 0x00, CHR 0x00, CHR 0x00, CHR 0x00, CHR 0x00, CHR 0x00, CHR 0x00, CHR 0x00, CHR 0x00, CHR 0x00, CHR 0x00, CHR 0x01, CHR 0x00, CHR 0x00, CHR 0x00, CHR 0x01]])
      None
      (Some [''PlainValidatorFunctionSchema'']),
    Row (PyName ''IPv6Interface'') (PyName ''tuple'') ''Lax'' ''Python''
      None
      (Some [VTuple [VStr ''2001:db00::1'', VStr ''120'']])
      None
      (Some [''PlainValidatorFunctionSchema'']),
    Row (PyName ''IPv6Interface'') (PyName ''int'') ''Lax'' ''Python''
      (Some ''integer representing the IP address, should be less than `2**128`'')
      (Some [VInt 340282366920938463463374607431768211455])
      None
      (Some [''PlainValidatorFunctionSchema'']),
    Row (PyName ''IPv6Network'') (PyName ''IPv6Network'') ''Strict'' ''Python''
      None
      None
      None
      (Some [''IsInstanceSchema'']),
    Row (PyName ''IPv6Network'') (PyName ''str'') ''Strict'' ''JSON''
      None
      None
      None
      (Some [''AfterValidatorFunctionSchema'']),
    Row (PyName ''IPv6Network'') (PyName ''IPv6Address'') ''Lax'' ''Python & JSON''
      None
      None
      None
      (Some [''PlainValidatorFunctionSchema'']),
    Row (PyName ''IPv6Network'') (PyName ''IPv6Interface'') ''Lax'' ''Python & JSON''
      None
      None
      None
      (Some [''PlainValidatorFunctionSchema'']),
    Row (PyName ''IPv6Network'') (PyName ''str'') ''Lax'' ''Python & JSON''
      None
      None
      None
      (Some [''PlainValidatorFunctionSchema'']),
    Row (PyName ''IPv6Network'') (PyName ''bytes'') ''Lax'' ''Python''
      None
      (Some [VBytes [CHR 0x00, CHR 0x00, CHR 0x00, CHR 0x00, CHR 0x00, CHR 0x00, CHR 0x00, CHR 0x00, CHR 0x00, CHR 0x00, CHR 0x00, CHR 0x01, CHR 0x00, CHR 0x00, CHR 0x00, CHR 0x01]])
      None
      (Some [''PlainValidatorFunctionSchema'']),
    Row (PyName ''IPv6Network'') (PyName ''int'') ''Lax'' ''Python''
      (Some ''integer representing the IP address, should be less than `2**128`'')
      (Some [VInt 340282366920938463463374607431768211455])
      None
      (Some [''PlainValidatorFunctionSchema'']),
    Row (PyName ''Enum'') (PyName ''Enum'') ''Strict'' ''Python''
      None
      None
      None
      (Some [''IsInstanceSchema'']),
    Row (PyName ''Enum'') (PyName ''Any'') ''Strict'' ''JSON''
      (Some ''Input value should be convertible to enum values.'')
      None
      None
      (Some [''PlainValidatorFunctionSchema'']),
    Row (PyName ''Enum'') (PyName ''Any'') ''Lax'' ''Python''
      (Some ''Input value should be convertible to enum values.'')
      None
      None
      (Some [''PlainValidatorFunctionSchema'']),
    Row (PyName ''IntEnum'') (PyName ''IntEnum'') ''Strict'' ''Python''
      None
      None
      None
      (Some [''IsInstanceSchema'']),
    Row (PyName ''IntEnum'') (PyName ''Any'') ''Strict'' ''JSON''
      (Some ''Input value should be convertible to enum values.'')
      None
      None
      (Some [''PlainValidatorFunctionSchema'']),
    Row (PyName ''IntEnum'') (PyName ''Any'') ''Lax'' ''Python''
      (Some ''Input value should be convertible to enum values.'')
      None
      None
      (Some [''PlainValidatorFunctionSchema'']),
    Row (PyName ''Decimal'') (PyName ''Decimal'') ''Strict'' ''Python''
      None
      None
      None
      (Some [''CustomErrorSchema'']),
    Row (PyName ''Decimal'') (PyName ''int'') ''Strict'' ''JSON''
      None
      None
      None
      (Some [''CustomErrorSchema'']),
    Row (PyName ''Decimal'') (PyName ''str'') ''Strict'' ''JSON''
      None
      None
      None
      (Some [''CustomErrorSchema'']),
    Row (PyName ''Decimal'') (PyName ''float'') ''Strict'' ''JSON''
      None
      None
      None
      (Some [''CustomErrorSchema'']),
    Row (PyName ''Decimal'') (PyName ''int'') ''Lax'' ''Python & JSON''
      None
      None
      None
      (Some [''AfterValidatorFunctionSchema'']),
    Row (PyName ''Decimal'') (PyName ''str'') ''Lax'' ''Python & JSON''
      (Some (''Must match `[0-9]+('' @ [CHR 0x5C] @ ''.[0-9]+)?`.''))
      (Some [VStr ''3.141''])
      (Some [VStr ''test'', VStr ''3.141x''])
      (Some [''AfterValidatorFunctionSchema'']),
    Row (PyName ''Decimal'') (PyName ''float'') ''Lax'' ''Python & JSON''
      None
      None
      None
      (Some [''AfterValidatorFunctionSchema'']),
    Row (PyName ''Path'') (PyName ''Path'') ''Strict'' ''Python''
      None
      None
      None
      (Some [''IsInstanceSchema'']),
    Row (PyName ''Path'') (PyName ''str'') ''Strict'' ''JSON''
      None
      None
      None
      (Some [''AfterValidatorFunctionSchema'']),
    Row (PyName ''Path'') (PyName ''str'') ''Lax'' ''Python''
      None
      None
      None
      (Some [''AfterValidatorFunctionSchema'']),
    Row (PyName ''UUID'') (PyName ''UUID'') ''Strict'' ''Python''
      None
      None
      None
      (Some [''IsInstanceSchema'']),
    Row (PyName ''UUID'') (PyName ''str'') ''Strict'' ''JSON''
      None
      None
      None
      (Some [''AfterValidatorFunctionSchema'']),
    Row (PyName ''UUID'') (PyName ''str'') ''Lax'' ''Python''
      None
      (Some [VStr ''{12345678-1234-5678-1234-567812345678}''])
      None
      (Some [''AfterValidatorFunctionSchema'']),
    Row (PyName ''ByteSize'') (PyName ''str'') ''Strict'' ''Python & JSON''
      None
      (Some [VStr ''1.2'', VStr ''1.5 KB'', VStr ''6.2EiB''])
      None
      (Some [''PlainValidatorFunctionSchema'']),
    Row (PyName ''ByteSize'') (PyName ''int'') ''Strict'' ''Python & JSON''
      None
      None
      None
      (Some [''PlainValidatorFunctionSchema'']),
    Row (PyName ''ByteSize'') (PyName ''float'') ''Strict'' ''Python & JSON''
      None
      None
      None
      (Some [''PlainValidatorFunctionSchema'']),
    Row (PyName ''ByteSize'') (PyName ''Decimal'') ''Strict'' ''Python''
      None
      None
      None
      (Some [''PlainValidatorFunctionSchema''])
  ]\<close>

section \<open>Predicates over rows and tables\<close>

subsection \<open>Implementing schema kinds\<close>

text \<open>
  Whether a row names at least one schema class: \<open>core_schemas\<close> is given (not the default
  \<open>None\<close>) and is not the empty list.
\<close>

definition has_core_schema :: "Row \<Rightarrow> bool" where
  "has_core_schema r = (case core_schemas r of None \<Rightarrow> False | Some ks \<Rightarrow> ks \<noteq> [])"

subsection \<open>Mode and input format\<close>

text \<open>Whether a row's \<open>mode\<close> and \<open>input_format\<close> are values of their \<open>Literal\<close> types.\<close>

definition enums_ok :: "Row \<Rightarrow> bool" where
  "enums_ok r = (mode r \<in> set mode_literals \<and> input_format r \<in> set input_format_literals)"

subsection \<open>Target types\<close>

text \<open>
  A field type is missing or empty when it is \<open>None\<close>, the marker the dataclass uses for
  an absent optional field, or the empty string.
\<close>

definition missing_or_empty :: "pyobj \<Rightarrow> bool" where
  "missing_or_empty x = (x = PyNone \<or> x = PyStr '''')"

subsection \<open>Input types on the JSON channel\<close>

text \<open>
  An input format includes the wire channel when it is \<open>'JSON'\<close> or \<open>'Python & JSON'\<close>.
\<close>

definition includes_json :: "string \<Rightarrow> bool" where
  "includes_json f = (f = ''JSON'' \<or> f = ''Python & JSON'')"

text \<open>
  The input types that JSON can express: \<open>str\<close>, \<open>int\<close>, \<open>float\<close>, \<open>bool\<close> and \<open>None\<close> for
  the JSON scalars, \<open>Any\<close>, and every string label (\<open>'Array'\<close>, \<open>'Object'\<close> and the
  placeholders \<open>'-'\<close> and \<open>''\<close> of the rows that are never valid). Every other named class
  exists only as a Python object.
\<close>

fun json_expressible :: "pyobj \<Rightarrow> bool" where
  "json_expressible PyNone = True"
| "json_expressible (PyStr s) = True"
| "json_expressible (PyName n) = (n \<in> set [''str'', ''int'', ''float'', ''bool'', ''Any''])"

subsection \<open>Equality of example values\<close>

text \<open>
  Python's \<open>==\<close> on the values of the table. Numbers compare by value across \<open>bool\<close>,
  \<open>int\<close>, \<open>float\<close> and \<open>Decimal\<close> (\<open>True == 1\<close>, \<open>1 == 1.0\<close>, \<open>Decimal(2) == 2.0\<close>), NaN
  equals nothing, \<open>bytes\<close> and \<open>bytearray\<close> compare by content, tuples elementwise, and
  values of unrelated types (also a \<open>date\<close> and a \<open>datetime\<close>) are unequal.
\<close>

fun num_of :: "pyval \<Rightarrow> pyfloat option" where
  "num_of (VBool b) = Some (Finite (if b then 1 else 0))"
| "num_of (VInt i) = Some (Finite (of_int i))"
| "num_of (VFloat f) = Some f"
| "num_of (VDecimal d) = Some (Finite d)"
| "num_of _ = None"

fun bytes_of :: "pyval \<Rightarrow> string option" where
  "bytes_of (VBytes b) = Some b"
| "bytes_of (VBytearray b) = Some b"
| "bytes_of _ = None"

fun py_eq :: "pyval \<Rightarrow> pyval \<Rightarrow> bool" where
  "py_eq (VStr a) w = (w = VStr a)"
| "py_eq (VDate y m d) w = (w = VDate y m d)"
| "py_eq (VDatetime y m d H M S us) w = (w = VDatetime y m d H M S us)"
| "py_eq (VTuple xs) w = (case w of VTuple ys \<Rightarrow> list_all2 py_eq xs ys | _ \<Rightarrow> False)"
| "py_eq (VBytes a) w = (bytes_of w = Some a)"
| "py_eq (VBytearray a) w = (bytes_of w = Some a)"
| "py_eq v w = (case num_of v of None \<Rightarrow> False | Some x \<Rightarrow> x \<noteq> NaN \<and> num_of w = Some x)"

text \<open>\<open>v in ws\<close> for a list \<open>ws\<close> of separately constructed values.\<close>

definition py_in :: "pyval \<Rightarrow> pyval list \<Rightarrow> bool" where
  "py_in v ws = list_ex (py_eq v) ws"

text \<open>The examples a field lists: none when the field is \<open>None\<close>.\<close>

definition examples_of :: "pyval list option \<Rightarrow> pyval list" where
  "examples_of xs = (case xs of None \<Rightarrow> [] | Some vs \<Rightarrow> vs)"

text \<open>
  The valid examples of a row that are also among its invalid examples, as the same value
  or as a value equal under \<open>==\<close>. Empty unless both lists are present.
\<close>

definition both_ways :: "Row \<Rightarrow> pyval list" where
  "both_ways r = (case (valid_examples r, invalid_examples r) of
     (Some vs, Some ws) \<Rightarrow> filter (\<lambda>v. v \<in> set ws \<or> py_in v ws) vs
   | _ \<Rightarrow> [])"

subsection \<open>Contradictions between rows\<close>

text \<open>
  Two rows document the same rule key when they agree on field type, input type and input
  format. A contradiction is a valid example of one row that is an invalid example of a
  row with the same key (the two rows may be the same one).
\<close>

definition same_rule :: "Row \<Rightarrow> Row \<Rightarrow> bool" where
  "same_rule r s = (field_type r = field_type s \<and> input_type r = input_type s
     \<and> input_format r = input_format s)"

definition contradictions :: "Row list \<Rightarrow> (Row \<times> Row \<times> pyval) list" where
  "contradictions t = [(r, s, v).
     r \<leftarrow> t, v \<leftarrow> examples_of (valid_examples r),
     s \<leftarrow> t, same_rule r s,
     v \<in> set (examples_of (invalid_examples s)) \<or> py_in v (examples_of (invalid_examples s))]"

subsection \<open>Grouping\<close>

text \<open>
  A list is grouped when equal elements are adjacent: once the run of the head's copies
  has ended, the head does not occur again, and so on for the tail.
\<close>

fun grouped :: "'a list \<Rightarrow> bool" where
  "grouped [] = True"
| "grouped (x # xs) = (x \<notin> set (dropWhile (\<lambda>y. y = x) xs) \<and> grouped xs)"

section \<open>Queries and rendering\<close>

text \<open>
  The source file holds the dataclass and the table only. The operations below are the
  ones the specification describes over a catalog, which is a list of rows in authoring
  order.
\<close>

type_synonym catalog = "Row list"

text \<open>
  Modelled from the spec: \<open>all()\<close> of the Catalog component, absent from the source. It
  returns the entries in authoring order.
\<close>

definition all_entries :: "catalog \<Rightarrow> Row list" where
  "all_entries c = c"

text \<open>
  Modelled from the spec: \<open>by_mode(mode)\<close> of the Query Layer, absent from the source. It
  returns all entries whose mode equals the argument, preserving catalog order, and the
  empty sequence when none matches.
\<close>

definition by_mode :: "string \<Rightarrow> catalog \<Rightarrow> Row list" where
  "by_mode m c = filter (\<lambda>e. mode e = m) c"

text \<open>
  Modelled from the spec: the \<open>Table\<close> value of the Renderer, absent from the source. A
  table is a list of rows, a row an ordered list of named cells and an optional block of
  examples. A cell is text, or the explicit empty marker of a missing optional field.
\<close>

datatype cell =
    Text string
  | EmptyMarker

record rendered_row =
  cells :: "(string \<times> cell) list"
  examples_block :: "(pyval list option \<times> pyval list option) option"

text \<open>The fixed column schema, in its stable order.\<close>

definition columns :: "string list" where
  "columns = [''target_type'', ''input_representation'', ''mode'', ''channel'',
     ''condition'', ''implementing_schema_kinds'']"

text \<open>
  What the spec leaves to the markup: how delimiter characters are escaped or quoted, and
  how a type identifier and a list of schema kinds are written as text.
\<close>

record markup =
  escape :: "string \<Rightarrow> string"
  type_text :: "pyobj \<Rightarrow> string"
  kinds_text :: "string list \<Rightarrow> string"

text \<open>
  Modelled from the spec: the cell of an optional field in \<open>render_table\<close>, absent from
  the source. A missing field renders as the explicit empty marker, a present one as its
  escaped text.
\<close>

definition optional_cell :: "markup \<Rightarrow> string option \<Rightarrow> cell" where
  "optional_cell mk x = (case x of None \<Rightarrow> EmptyMarker | Some s \<Rightarrow> Text (escape mk s))"

text \<open>
  Modelled from the spec: the row \<open>render_table\<close> produces for one entry, absent from the
  source. The cells are escaped and in column order; the examples are a separate block,
  present when the entry has an example list.
\<close>

definition render_row :: "markup \<Rightarrow> Row \<Rightarrow> rendered_row" where
  "render_row mk e = \<lparr>
     cells = zip columns
       [Text (escape mk (type_text mk (field_type e))),
        Text (escape mk (type_text mk (input_type e))),
        Text (escape mk (mode e)),
        Text (escape mk (input_format e)),
        optional_cell mk (condition e),
        optional_cell mk (map_option (kinds_text mk) (core_schemas e))],
     examples_block =
       (if valid_examples e = None \<and> invalid_examples e = None then None
        else Some (valid_examples e, invalid_examples e)) \<rparr>"

text \<open>
  Modelled from the spec: \<open>render_table(entries)\<close> of the Renderer, absent from the source.
  A pure function that renders the entries in order, one row each.
\<close>

definition render_table :: "markup \<Rightarrow> Row list \<Rightarrow> rendered_row list" where
  "render_table mk es = map (render_row mk) es"

section \<open>Properties of the table\<close>

subsection \<open>How the predicates behave\<close>

text \<open>
  The checks below are not vacuous: \<open>==\<close> identifies \<open>1\<close>, \<open>True\<close> and \<open>1.0\<close> and
  separates a NaN from itself, a row that lists \<open>1\<close> as valid and \<open>True\<close> as invalid is
  reported, and so is such a pair of rows with one rule key.
\<close>

lemma py_eq_examples:
  "py_eq (VInt 1) (VBool True)" "py_eq (VBool True) (VFloat (Finite 1))"
  "py_eq (VDecimal 2) (VFloat (Finite 2))" "\<not> py_eq (VFloat NaN) (VFloat NaN)"
  "py_eq (VBytes ''ab'') (VBytearray ''ab'')" "\<not> py_eq (VStr ''ab'') (VBytes ''ab'')"
  "py_eq (VTuple [VInt 1, VStr ''a'']) (VTuple [VBool True, VStr ''a''])"
  "\<not> py_eq (VDate 2017 5 5) (VDatetime 2017 5 5 0 0 0 0)"
  by simp_all

lemma both_ways_example:
  "both_ways (Row (PyName ''int'') (PyName ''int'') ''Lax'' ''Python'' None
     (Some [VInt 1, VInt 2]) (Some [VBool True]) None) = [VInt 1]"
  by (simp add: both_ways_def py_in_def)

lemma contradictions_example:
  "contradictions
     [Row (PyName ''int'') (PyName ''int'') ''Lax'' ''Python'' None (Some [VInt 1]) None None,
      Row (PyName ''int'') (PyName ''int'') ''Strict'' ''Python'' None None (Some [VBool True]) None]
   \<noteq> []"
  by (simp add: contradictions_def same_rule_def examples_of_def py_in_def)

lemma grouped_examples:
  "grouped [1, 1, 2, 3, 3 :: nat]" "\<not> grouped [1, 2, 1 :: nat]"
  by simp_all

subsection \<open>Implementing schema kinds\<close>

text \<open>
  C9. Every row of the table names at least one implementing schema kind: its
  \<open>core_schemas\<close> field is provided and is a non-empty list of schema class names.
\<close>

theorem table_core_schemas_nonempty:
  "list_all has_core_schema table"
  by (simp add: table_def has_core_schema_def)

subsection \<open>Empty and absent example lists\<close>

text \<open>
  C10. An empty example list is distinct from an absent one. Exactly two rows give
  \<open>valid_examples=[]\<close>, the present but empty list: \<open>dict\<close> from \<open>Mapping\<close> and \<open>TypedDict\<close>
  from \<open>Mapping\<close>. The rows that document no valid examples (128 of them, the first row
  among them) leave the field at its default \<open>None\<close>, which is a different value.
\<close>

theorem table_empty_vs_absent_examples:
  \<open>map (\<lambda>r. (field_type r, input_type r)) (filter (\<lambda>r. valid_examples r = Some []) table)
     = [(PyName ''dict'', PyName ''Mapping''), (PyName ''TypedDict'', PyName ''Mapping'')]
   \<and> length (filter (\<lambda>r. valid_examples r = None) table) = 128
   \<and> valid_examples (table ! 0) = None
   \<and> (None :: pyval list option) \<noteq> Some []\<close>
  by code_simp

subsection \<open>Mode and input format\<close>

text \<open>
  C1. Every entry should have a mode among \<open>'Lax'\<close>, \<open>'Strict'\<close> and an input format among
  \<open>'Python'\<close>, \<open>'JSON'\<close>, \<open>'Python & JSON'\<close>. The table breaks this in one row: row 96
  (\<open>deque\<close> from \<open>'Array'\<close>, source lines 836 to 842) has the input format \<open>'Json'\<close>, which is
  none of the three. Constructing the row raises nothing, so the table is built with it.
  Every other row has both fields within their enumerations.
\<close>

theorem table_row_96_input_format_outside_enum:
  \<open>table ! 96 = Row (PyName ''deque'') (PyStr ''Array'') ''Strict'' ''Json''
                   None None None (Some [''WrapValidatorFunctionSchema''])
   \<and> ''Json'' \<notin> set input_format_literals
   \<and> \<not> enums_ok (table ! 96)
   \<and> filter (\<lambda>r. \<not> enums_ok r) table = [table ! 96]\<close>
  by code_simp

subsection \<open>Target types\<close>

text \<open>
  C2, as stated: every entry has a non-empty target type. Row 25 (source lines 261 to 267)
  has \<open>field_type = None\<close>.
\<close>

theorem table_row_25_field_type_none:
  \<open>table ! 25 = Row PyNone PyNone ''Strict'' ''Python & JSON'' None None None (Some [''NoneSchema''])
   \<and> missing_or_empty (field_type (table ! 25))\<close>
  by code_simp

text \<open>
  C2, amended. No row has the empty string as its field type, and exactly one row has
  \<open>None\<close>: the row that documents the target type \<open>None\<close> itself, accepted from \<open>None\<close> by
  \<open>NoneSchema\<close>. There \<open>None\<close> is the identifier of the type, not an omitted value.
\<close>

theorem table_field_type_none_only_for_none_type:
  \<open>filter (\<lambda>r. missing_or_empty (field_type r)) table
     = [Row PyNone PyNone ''Strict'' ''Python & JSON'' None None None (Some [''NoneSchema''])]
   \<and> list_all (\<lambda>r. field_type r \<noteq> PyStr '''') table\<close>
  by code_simp

subsection \<open>Input types on the JSON channel\<close>

text \<open>
  C6. An entry on the wire channel (\<open>'JSON'\<close> or \<open>'Python & JSON'\<close>) should have a
  JSON-expressible input type unless its condition states an encoding. The table breaks
  this in six rows: 135, 142, 143, 155, 162 and 163 document the IP interface and network
  targets as accepted from an \<open>IPv4Address\<close>, \<open>IPv4Interface\<close>, \<open>IPv6Address\<close> or
  \<open>IPv6Interface\<close> object under \<open>'Python & JSON'\<close>, with no condition at all; such an object
  cannot arrive as JSON. Every other row whose input type is a Python-only class, 94 of
  them, is \<open>'Python'\<close> only, among them the mirror rows 128 and 148 (\<open>IPv4Address\<close> from
  \<open>IPv4Interface\<close>, \<open>IPv6Address\<close> from \<open>IPv6Interface\<close>). No entry on the wire channel has
  \<open>bytes\<close>, \<open>bytearray\<close> or \<open>Decimal\<close> as its input type.
\<close>

theorem table_native_inputs_on_json:
  \<open>table ! 135 = Row (PyName ''IPv4Interface'') (PyName ''IPv4Address'') ''Lax'' ''Python & JSON''
                    None None None (Some [''PlainValidatorFunctionSchema''])
   \<and> includes_json (input_format (table ! 135))
   \<and> \<not> json_expressible (input_type (table ! 135))
   \<and> condition (table ! 135) = None
   \<and> map (\<lambda>r. (field_type r, input_type r, mode r, input_format r, condition r))
         (filter (\<lambda>r. includes_json (input_format r) \<and> \<not> json_expressible (input_type r)) table)
       = [(PyName ''IPv4Interface'', PyName ''IPv4Address'', ''Lax'', ''Python & JSON'', None),
          (PyName ''IPv4Network'', PyName ''IPv4Address'', ''Lax'', ''Python & JSON'', None),
          (PyName ''IPv4Network'', PyName ''IPv4Interface'', ''Lax'', ''Python & JSON'', None),
          (PyName ''IPv6Interface'', PyName ''IPv6Address'', ''Lax'', ''Python & JSON'', None),
          (PyName ''IPv6Network'', PyName ''IPv6Address'', ''Lax'', ''Python & JSON'', None),
          (PyName ''IPv6Network'', PyName ''IPv6Interface'', ''Lax'', ''Python & JSON'', None)]
   \<and> filter (\<lambda>r. includes_json (input_format r) \<and> \<not> json_expressible (input_type r)) table
       = [table ! 135, table ! 142, table ! 143, table ! 155, table ! 162, table ! 163]
   \<and> map (\<lambda>f. length (filter (\<lambda>r. input_format r = f \<and> \<not> json_expressible (input_type r)) table))
         [''Python'', ''JSON'', ''Python & JSON'', ''Json'']
       = [94, 0, 6, 0]
   \<and> table ! 128 = Row (PyName ''IPv4Address'') (PyName ''IPv4Interface'') ''Strict'' ''Python''
                    None None None (Some [''IsInstanceSchema''])
   \<and> table ! 148 = Row (PyName ''IPv6Address'') (PyName ''IPv6Interface'') ''Strict'' ''Python''
                    None None None (Some [''IsInstanceSchema''])
   \<and> filter (\<lambda>r. includes_json (input_format r) \<and>
         input_type r \<in> set [PyName ''bytes'', PyName ''bytearray'', PyName ''Decimal'']) table = []\<close>
  by code_simp

subsection \<open>Examples classified both ways\<close>

text \<open>
  C3. For every row of the table, when both example lists are present no value of
  \<open>valid_examples\<close> is among \<open>invalid_examples\<close>, neither as the same value nor as one
  that Python's \<open>==\<close> identifies with it: no example is classified both as accepted and as
  rejected by one rule.
\<close>

theorem table_examples_disjoint:
  "list_all (\<lambda>r. both_ways r = []) table"
  by code_simp

text \<open>
  C5. Within one target type the documented combinations do not contradict each other: no
  value is a valid example of one row and an invalid example of a row with the same field
  type, input type and input format.
\<close>

theorem table_no_contradictions:
  "contradictions table = []"
  by code_simp

subsection \<open>Grouping by target type\<close>

lemma later_in_dropWhile:
  "m < n \<Longrightarrow> n < length xs \<Longrightarrow> xs ! m \<noteq> x \<Longrightarrow> xs ! n \<in> set (dropWhile (\<lambda>y. y = x) xs)"
proof (induction xs arbitrary: m n)
  case Nil
  then show ?case by simp
next
  case (Cons a xs)
  show ?case
  proof (cases "a = x")
    case False
    with Cons.prems show ?thesis by simp
  next
    case True
    with Cons.prems obtain m' where m: "m = Suc m'" by (cases m) auto
    from Cons.prems obtain n' where n: "n = Suc n'" by (cases n) auto
    from Cons.prems m n have "m' < n'" "n' < length xs" "xs ! m' \<noteq> x" by auto
    from Cons.IH[OF this] True n show ?thesis by simp
  qed
qed

text \<open>In a grouped list, whatever lies between two equal elements equals them.\<close>

lemma grouped_nth:
  "grouped xs \<Longrightarrow> i < j \<Longrightarrow> j < k \<Longrightarrow> k < length xs \<Longrightarrow> xs ! i = xs ! k \<Longrightarrow> xs ! j = xs ! i"
proof (induction xs arbitrary: i j k)
  case Nil
  then show ?case by simp
next
  case (Cons a xs)
  from Cons.prems obtain j' where j: "j = Suc j'" by (cases j) auto
  from Cons.prems obtain k' where k: "k = Suc k'" by (cases k) auto
  show ?case
  proof (cases i)
    case 0
    show ?thesis
    proof (rule ccontr)
      assume neq: "(a # xs) ! j \<noteq> (a # xs) ! i"
      with 0 j have "xs ! j' \<noteq> a" by simp
      moreover from Cons.prems j k have "j' < k'" "k' < length xs" by auto
      ultimately have "xs ! k' \<in> set (dropWhile (\<lambda>y. y = a) xs)"
        by (simp add: later_in_dropWhile)
      moreover from Cons.prems 0 k have "xs ! k' = a" by simp
      ultimately show False using Cons.prems(1) by simp
    qed
  next
    case (Suc i')
    with Cons.prems j k have "grouped xs" "i' < j'" "j' < k'" "k' < length xs" "xs ! i' = xs ! k'"
      by auto
    from Cons.IH[OF this] Suc j show ?thesis by simp
  qed
qed

lemma table_field_types_grouped:
  "grouped (map field_type table)"
  by code_simp

text \<open>
  C4. The table is a list, so it keeps the order in which the rows are written, and it is
  grouped by target type: the rows of one field type form one contiguous block. No two rows
  with equal field type are separated by a row with a different one.
\<close>

theorem table_grouped_by_field_type:
  "i < j \<Longrightarrow> j < k \<Longrightarrow> k < length table
   \<Longrightarrow> field_type (table ! i) = field_type (table ! k)
   \<Longrightarrow> field_type (table ! j) = field_type (table ! i)"
  using grouped_nth [of "map field_type table" i j k] table_field_types_grouped by simp

text \<open>Rows 7 to 13 are the block of \<open>int\<close>; row 10 lies between rows 7 and 13.\<close>

theorem table_grouped_by_field_type_witness:
  "(7::nat) < 10 \<and> (10::nat) < 13 \<and> 13 < length table
   \<and> field_type (table ! 7) = field_type (table ! 13)
   \<and> field_type (table ! 10) = field_type (table ! 7)"
proof -
  have a: "(7::nat) < 10" "(10::nat) < 13" by simp_all
  have b: "13 < length table" by code_simp
  have c: "field_type (table ! 7) = field_type (table ! 13)" by code_simp
  from table_grouped_by_field_type [OF a b c] a b c show ?thesis by simp
qed

section \<open>Properties of the queries and the renderer\<close>

text \<open>
  C7. For a catalog whose entries all have a mode among \<open>'Lax'\<close> and \<open>'Strict'\<close>, the
  entries of mode \<open>'Strict'\<close> and those of mode \<open>'Lax'\<close> are disjoint sets whose union is the
  set of all entries: mode partitions the catalog in two.
\<close>

theorem by_mode_partition:
  assumes "list_all (\<lambda>e. mode e \<in> set mode_literals) c"
  shows "set (by_mode ''Strict'' c) \<union> set (by_mode ''Lax'' c) = set (all_entries c)
       \<and> set (by_mode ''Strict'' c) \<inter> set (by_mode ''Lax'' c) = {}"
  using assms by (auto simp add: by_mode_def all_entries_def mode_literals_def list_all_iff)

text \<open>The table itself: every row has one of the two modes.\<close>

theorem by_mode_partition_witness:
  "list_all (\<lambda>e. mode e \<in> set mode_literals) table
   \<and> set (by_mode ''Strict'' table) \<union> set (by_mode ''Lax'' table) = set (all_entries table)
   \<and> set (by_mode ''Strict'' table) \<inter> set (by_mode ''Lax'' table) = {}"
proof -
  have h: "list_all (\<lambda>e. mode e \<in> set mode_literals) table" by code_simp
  from by_mode_partition [OF h] h show ?thesis by simp
qed

text \<open>
  C8. \<open>render_table\<close> yields exactly one row per entry, and every row has exactly 6 cells,
  named in the fixed order target_type, input_representation, mode, channel, condition,
  implementing_schema_kinds. The example lists are not among the cells.
\<close>

theorem render_table_shape:
  "length (render_table mk es) = length es
   \<and> list_all (\<lambda>r. length (cells r) = 6 \<and> map fst (cells r) = columns) (render_table mk es)"
  by (simp add: render_table_def render_row_def columns_def list_all_iff)

end
